theory Spec2Isabelle
  imports Main "HOL-Library.Word"
begin

unbundle bit_operations_syntax

section \<open>The block model of lib/backend/model/block.go\<close>

text \<open>
  A Go string is a sequence of bytes, here a \<open>string\<close> (a list of 8-bit characters).
  A Go byte slice is a list of \<open>8 word\<close>; where the code tests a slice against nil the
  slice is an option, \<open>None\<close> being nil.
\<close>

type_synonym byte = "8 word"

subsection \<open>Go library: strconv-style printing, fmt.Sprintf, strings.Replace\<close>

text \<open>
  The packages \<open>fmt\<close>, \<open>strings\<close>, \<open>regexp\<close> and \<open>net\<close> are Go's standard library. The
  package \<open>lib/net\<close> that block.go imports is not among the sources: its \<open>IPNet\<close> embeds
  \<open>net.IPNet\<close>, so \<open>String\<close> is the one of \<open>net\<close>, its \<open>ParseCIDR\<close> hands on the network
  that \<open>net.ParseCIDR\<close> returns, and its \<open>Version\<close> tells an IPv4 address from any other
  address of 16 bytes. All of them are modelled here as far as block.go calls them, the
  library as its current release behaves.
\<close>

definition decDigit :: "nat \<Rightarrow> char" where
  "decDigit d = ''0123456789'' ! d"

definition hexDigit :: "nat \<Rightarrow> char" where
  "hexDigit d = ''0123456789abcdef'' ! d"

text \<open>\<open>uitoa\<close>: an unsigned number in decimal, no leading zeros.\<close>

fun uitoa :: "nat \<Rightarrow> string" where
  "uitoa n = (if n < 10 then [decDigit n] else uitoa (n div 10) @ [decDigit (n mod 10)])"

declare uitoa.simps [simp del]

text \<open>The verb \<open>%d\<close> of \<open>fmt.Sprintf\<close> on an \<open>int\<close>: decimal, with a minus sign when negative.\<close>

definition fmt_d :: "int \<Rightarrow> string" where
  "fmt_d i = (if i < 0 then CHR ''-'' # uitoa (nat (- i)) else uitoa (nat i))"

text \<open>
  \<open>strings.Replace(s, old, new, n)\<close> for one-byte \<open>old\<close> and \<open>new\<close>, which is how block.go
  calls it: the first \<open>n\<close> occurrences of \<open>old\<close> are replaced, all of them when \<open>n < 0\<close>.
\<close>

fun Replace :: "string \<Rightarrow> char \<Rightarrow> char \<Rightarrow> int \<Rightarrow> string" where
  "Replace [] old new n = []"
| "Replace (c # cs) old new n =
     (if n = 0 \<or> old = new then c # cs
      else if c = old then new # Replace cs old new (n - 1)
      else c # Replace cs old new n)"

subsection \<open>Go library: net.IP, net.IPMask, net.IPNet\<close>

record IPNet =
  IP :: "byte list option"
  Mask :: "byte list"

definition IPv4len :: nat where "IPv4len = 4"
definition IPv6len :: nat where "IPv6len = 16"

text \<open>\<open>len\<close> of a slice that may be nil.\<close>

definition len :: "'a list option \<Rightarrow> nat" where
  "len s = (case s of None \<Rightarrow> 0 | Some xs \<Rightarrow> length xs)"

definition v4InV6Prefix :: "byte list" where
  "v4InV6Prefix = [0, 0, 0, 0, 0, 0, 0, 0, 0, 0, 0xff, 0xff]"

text \<open>
  \<open>IP.To4\<close>: a 4-byte address is returned as it is, a 16-byte address with the
  IPv4-in-IPv6 prefix gives its last four bytes, anything else nil.
\<close>

definition To4 :: "byte list option \<Rightarrow> byte list option" where
  "To4 ip = (case ip of None \<Rightarrow> None | Some p \<Rightarrow>
     if length p = IPv4len then Some p
     else if length p = IPv6len \<and> take 12 p = v4InV6Prefix then Some (drop 12 p)
     else None)"

text \<open>\<open>hexString\<close>: two lower-case hex digits for every byte.\<close>

definition hexString :: "byte list \<Rightarrow> string" where
  "hexString b = concat (map (\<lambda>x. [hexDigit (unat x div 16), hexDigit (unat x mod 16)]) b)"

text \<open>\<open>appendHex\<close>: a 16-bit group in lower-case hex, no leading zeros.\<close>

fun hexGroup :: "nat \<Rightarrow> string" where
  "hexGroup n = (if n < 16 then [hexDigit n] else hexGroup (n div 16) @ [hexDigit (n mod 16)])"

declare hexGroup.simps [simp del]

text \<open>The eight 16-bit groups of a 16-byte address.\<close>

fun groups :: "byte list \<Rightarrow> nat list" where
  "groups (a # b # rest) = (unat a * 256 + unat b) # groups rest"
| "groups _ = []"

text \<open>
  The search of \<open>IP.String\<close> for the longest run of zero groups (the leftmost of the longest
  ones): \<open>zeroRun\<close> is the length of the run starting a list, \<open>longestZeros gs i best\<close>
  scans the groups from index \<open>i\<close> on, \<open>best\<close> being the (start, length) found so far.
  As in the source a run is jumped over once it has been recorded.
\<close>

fun zeroRun :: "nat list \<Rightarrow> nat" where
  "zeroRun [] = 0"
| "zeroRun (g # gs) = (if g = 0 then Suc (zeroRun gs) else 0)"

function longestZeros :: "nat list \<Rightarrow> nat \<Rightarrow> nat \<times> nat \<Rightarrow> nat \<times> nat" where
  "longestZeros gs i best =
     (if i < length gs then
        (let r = zeroRun (drop i gs) in
         if r > 0 \<and> r > snd best then longestZeros gs (i + r + 1) (i, r)
         else longestZeros gs (i + 1) best)
      else best)"
  by pat_completeness auto
termination
  by (relation "measure (\<lambda>(gs, i, best). length gs - i)") auto

declare longestZeros.simps [simp del]

text \<open>Groups joined by colons.\<close>

fun joinGroups :: "nat list \<Rightarrow> string" where
  "joinGroups [] = []"
| "joinGroups [g] = hexGroup g"
| "joinGroups (g # gs) = hexGroup g @ CHR '':'' # joinGroups gs"

text \<open>
  \<open>IP.String\<close>: \<open><nil>\<close> for an empty address, dotted decimal for an IPv4 address (in
  either form), \<open>?\<close> and the bytes in hex for an address of another length than 16, and the
  colon form for an IPv6 address, where a longest run of at least two zero groups is
  written \<open>::\<close>.
\<close>

definition IP_String :: "byte list option \<Rightarrow> string" where
  "IP_String ip =
     (if len ip = 0 then ''<nil>''
      else case To4 ip of
        Some p4 \<Rightarrow>
          uitoa (unat (p4 ! 0)) @ ''.'' @ uitoa (unat (p4 ! 1)) @ ''.'' @
          uitoa (unat (p4 ! 2)) @ ''.'' @ uitoa (unat (p4 ! 3))
      | None \<Rightarrow>
          if len ip \<noteq> IPv6len then ''?'' @ hexString (the ip)
          else
            (let gs = groups (the ip); (e0, r) = longestZeros gs 0 (0, 0) in
             if r \<le> 1 then joinGroups gs
             else joinGroups (take e0 gs) @ ''::'' @ joinGroups (drop (e0 + r) gs)))"

text \<open>
  \<open>simpleMaskLength\<close>: the number of leading one bits of a mask that is ones followed by
  zeros, and \<open>None\<close> (the source's -1) for any other mask.
\<close>

definition onesOfByte :: "byte \<Rightarrow> nat option" where
  "onesOfByte v =
     (if v = 0x00 then Some 0 else if v = 0x80 then Some 1 else if v = 0xc0 then Some 2
      else if v = 0xe0 then Some 3 else if v = 0xf0 then Some 4 else if v = 0xf8 then Some 5
      else if v = 0xfc then Some 6 else if v = 0xfe then Some 7 else None)"

fun simpleMaskLength :: "byte list \<Rightarrow> nat option" where
  "simpleMaskLength [] = Some 0"
| "simpleMaskLength (v # vs) =
     (if v = 0xff then map_option (\<lambda>n. n + 8) (simpleMaskLength vs)
      else case onesOfByte v of
        None \<Rightarrow> None
      | Some k \<Rightarrow> if list_all (\<lambda>x. x = 0) vs then Some k else None)"

text \<open>
  \<open>networkNumberAndMask\<close>: the address in its shortest form and the mask cut to its
  length, or nil when the address or the mask has no valid length.
\<close>

definition networkNumberAndMask :: "IPNet \<Rightarrow> (byte list \<times> byte list) option" where
  "networkNumberAndMask n =
     (case (case To4 (IP n) of
              Some p4 \<Rightarrow> Some p4
            | None \<Rightarrow> if len (IP n) \<noteq> IPv6len then None else IP n) of
        None \<Rightarrow> None
      | Some ip \<Rightarrow>
          if length (Mask n) = IPv4len then
            (if length ip \<noteq> IPv4len then None else Some (ip, Mask n))
          else if length (Mask n) = IPv6len then
            (if length ip = IPv4len then Some (ip, drop 12 (Mask n)) else Some (ip, Mask n))
          else None)"

text \<open>
  \<open>IPNet.String\<close> (lib/net's \<open>IPNet.String\<close> calls it unchanged): address, slash, prefix
  length; the mask in hex when it is not a prefix mask; \<open><nil>\<close> for an invalid network.
\<close>

definition IPNet_String :: "IPNet \<Rightarrow> string" where
  "IPNet_String n =
     (case networkNumberAndMask n of
        None \<Rightarrow> ''<nil>''
      | Some (nn, m) \<Rightarrow>
          (case simpleMaskLength m of
             None \<Rightarrow> IP_String (Some nn) @ ''/'' @ (if m = [] then ''<nil>'' else hexString m)
           | Some l \<Rightarrow> IP_String (Some nn) @ ''/'' @ uitoa l))"

text \<open>
  \<open>IPNet.Version\<close> of lib/net: 4 for an IPv4 address, 6 for any other 16-byte address and
  0 when the address is not a valid one.
\<close>

definition Version :: "IPNet \<Rightarrow> int" where
  "Version n = (if To4 (IP n) \<noteq> None then 4 else if len (IP n) = IPv6len then 6 else 0)"

subsection \<open>Go library: net.ParseCIDR\<close>

definition isDigit :: "char \<Rightarrow> bool" where
  "isDigit c = (48 \<le> (of_char c :: nat) \<and> (of_char c :: nat) \<le> 57)"

definition isLowerHex :: "char \<Rightarrow> bool" where
  "isLowerHex c = (97 \<le> (of_char c :: nat) \<and> (of_char c :: nat) \<le> 102)"

definition isUpperHex :: "char \<Rightarrow> bool" where
  "isUpperHex c = (65 \<le> (of_char c :: nat) \<and> (of_char c :: nat) \<le> 70)"

text \<open>\<open>big\<close>: where \<open>dtoi\<close> and \<open>xtoi\<close> give up.\<close>

definition big :: nat where
  "big = 0xFFFFFF"

text \<open>
  \<open>dtoi\<close>: the decimal number a string starts with and the rest of the string; no result
  without a digit or when the number reaches \<open>big\<close>.
\<close>

fun dtoiLoop :: "string \<Rightarrow> nat \<Rightarrow> (nat \<times> string) option" where
  "dtoiLoop [] n = Some (n, [])"
| "dtoiLoop (c # cs) n =
     (if isDigit c then
        (let n' = n * 10 + (of_char c - 48) in
         if n' \<ge> big then None else dtoiLoop cs n')
      else Some (n, c # cs))"

definition dtoi :: "string \<Rightarrow> (nat \<times> string) option" where
  "dtoi s = (case dtoiLoop s 0 of
      None \<Rightarrow> None
    | Some (n, rest) \<Rightarrow> if length rest = length s then None else Some (n, rest))"

text \<open>\<open>xtoi\<close>: the same for a hexadecimal number, in either case of the letters.\<close>

fun xtoiLoop :: "string \<Rightarrow> nat \<Rightarrow> (nat \<times> string) option" where
  "xtoiLoop [] n = Some (n, [])"
| "xtoiLoop (c # cs) n =
     (if isDigit c \<or> isLowerHex c \<or> isUpperHex c then
        (let d = (if isDigit c then of_char c - 48
                  else if isLowerHex c then of_char c - 97 + 10
                  else of_char c - 65 + 10);
             n' = n * 16 + d in
         if n' \<ge> big then None else xtoiLoop cs n')
      else Some (n, c # cs))"

definition xtoi :: "string \<Rightarrow> (nat \<times> string) option" where
  "xtoi s = (case xtoiLoop s 0 of
      None \<Rightarrow> None
    | Some (n, rest) \<Rightarrow> if length rest = length s then None else Some (n, rest))"

text \<open>
  \<open>parseIPv4\<close>: four decimal numbers of at most 255 separated by dots, and nothing
  after them; a number of several digits that starts with a zero is refused.
  \<open>parseOctets k first s\<close> reads \<open>k\<close> more of them; the result of \<open>parseIPv4\<close> is the
  16-byte form of the address.
\<close>

fun parseOctets :: "nat \<Rightarrow> bool \<Rightarrow> string \<Rightarrow> (byte list \<times> string) option" where
  "parseOctets 0 first s = Some ([], s)"
| "parseOctets (Suc k) first s =
     (case s of
        [] \<Rightarrow> None
      | c # cs \<Rightarrow>
          if \<not> first \<and> c \<noteq> CHR ''.'' then None
          else
            (case dtoi (if first then s else cs) of
               None \<Rightarrow> None
             | Some (n, rest) \<Rightarrow>
                 if n > 0xFF then None
                 else if length (if first then s else cs) - length rest > 1
                     \<and> hd (if first then s else cs) = CHR ''0'' then None
                 else
                   (case parseOctets k False rest of
                      None \<Rightarrow> None
                    | Some (bs, rest') \<Rightarrow> Some (of_nat n # bs, rest'))))"

definition parseIPv4 :: "string \<Rightarrow> byte list option" where
  "parseIPv4 s = (case parseOctets 4 True s of
      None \<Rightarrow> None
    | Some (bs, rest) \<Rightarrow> if rest \<noteq> [] then None else Some (v4InV6Prefix @ bs))"

text \<open>
  \<open>parseIPv6\<close> without a zone. The loop reads hexadecimal groups of at most four digits
  separated by colons into \<open>ip\<close> (the bytes parsed so far, \<open>i\<close> of the source being their
  number), notes the place of an ellipsis \<open>::\<close> and lets a dotted IPv4 address end the
  text. It gives the text left over, the bytes and the ellipsis.
\<close>

function parseIPv6Loop ::
  "string \<Rightarrow> byte list \<Rightarrow> nat option \<Rightarrow> (string \<times> byte list \<times> nat option) option" where
  "parseIPv6Loop s ip ellipsis =
     (if length ip < IPv6len then
        (case xtoi s of
           None \<Rightarrow> None
         | Some (n, rest) \<Rightarrow>
             if n > 0xFFFF \<or> length s - length rest > 4 then None
             else if rest \<noteq> [] \<and> hd rest = CHR ''.'' then
               (if ellipsis = None \<and> length ip \<noteq> IPv6len - IPv4len then None
                else if length ip + IPv4len > IPv6len then None
                else (case parseIPv4 s of
                        None \<Rightarrow> None
                      | Some ip4 \<Rightarrow> Some ([], ip @ drop 12 ip4, ellipsis)))
             else
               (let ip' = ip @ [of_nat (n div 256), of_nat (n mod 256)] in
                case rest of
                  [] \<Rightarrow> Some ([], ip', ellipsis)
                | c # cs \<Rightarrow>
                    if c \<noteq> CHR '':'' \<or> cs = [] then None
                    else if hd cs = CHR '':'' then
                      (if ellipsis \<noteq> None then None
                       else if tl cs = [] then Some ([], ip', Some (length ip'))
                       else parseIPv6Loop (tl cs) ip' (Some (length ip')))
                    else parseIPv6Loop cs ip' ellipsis))
      else Some (s, ip, ellipsis))"
  by pat_completeness auto
termination
  by (relation "measure (\<lambda>(s, ip, ellipsis). IPv6len - length ip)") (auto simp: IPv6len_def)

declare parseIPv6Loop.simps [simp del]

definition parseIPv6 :: "string \<Rightarrow> byte list option" where
  "parseIPv6 s0 =
     (let lead = (length s0 \<ge> 2 \<and> take 2 s0 = ''::'');
          s = (if lead then drop 2 s0 else s0);
          ellipsis = (if lead then Some 0 else None)
      in if lead \<and> s = [] then Some (replicate IPv6len 0)
         else
           (case parseIPv6Loop s [] ellipsis of
              None \<Rightarrow> None
            | Some (rest, ip, ell) \<Rightarrow>
                if rest \<noteq> [] then None
                else if length ip < IPv6len then
                  (case ell of
                     None \<Rightarrow> None
                   | Some e \<Rightarrow> Some (take e ip @ replicate (IPv6len - length ip) 0 @ drop e ip))
                else if ell \<noteq> None then None
                else Some ip))"

text \<open>\<open>CIDRMask ones bits\<close>: \<open>ones\<close> one bits followed by zeros, \<open>bits\<close> bits in all.\<close>

fun maskBytes :: "nat \<Rightarrow> nat \<Rightarrow> byte list" where
  "maskBytes 0 n = []"
| "maskBytes (Suc l) n =
     (if n \<ge> 8 then 0xff # maskBytes l (n - 8)
      else NOT (drop_bit n (0xff :: byte)) # maskBytes l 0)"

definition CIDRMask :: "nat \<Rightarrow> nat \<Rightarrow> byte list option" where
  "CIDRMask ones bits =
     (if bits \<noteq> 8 * IPv4len \<and> bits \<noteq> 8 * IPv6len then None
      else if ones > bits then None
      else Some (maskBytes (bits div 8) ones))"

text \<open>\<open>IP.Mask\<close>: the address and the mask brought to one length and combined bytewise.\<close>

definition IP_Mask :: "byte list \<Rightarrow> byte list \<Rightarrow> byte list option" where
  "IP_Mask ip0 mask0 =
     (let mask = (if length mask0 = IPv6len \<and> length ip0 = IPv4len
                     \<and> list_all (\<lambda>b. b = 0xff) (take 12 mask0)
                  then drop 12 mask0 else mask0);
          ip = (if length mask = IPv4len \<and> length ip0 = IPv6len \<and> take 12 ip0 = v4InV6Prefix
                then drop 12 ip0 else ip0)
      in if length ip \<noteq> length mask then None
         else Some (map (\<lambda>(a, b). a AND b) (zip ip mask)))"

text \<open>
  \<open>ParseCIDR\<close> (lib/net's \<open>ParseCIDR\<close> hands on the network of \<open>net.ParseCIDR\<close>, and nil
  when there is an error): the text is cut at its first slash, the address is read as
  IPv4 and, failing that, as IPv6, the prefix length is a decimal number up to the number
  of bits of the address. The network is the address masked, with the mask.
\<close>

definition ParseCIDR :: "string \<Rightarrow> IPNet option" where
  "ParseCIDR s =
     (if CHR ''/'' \<notin> set s then None
      else
        (let addr = takeWhile (\<lambda>c. c \<noteq> CHR ''/'') s;
             mask = tl (dropWhile (\<lambda>c. c \<noteq> CHR ''/'') s);
             ip4 = parseIPv4 addr;
             iplen = (if ip4 = None then IPv6len else IPv4len);
             ip = (if ip4 = None then parseIPv6 addr else ip4)
         in case (ip, dtoi mask) of
              (Some p, Some (n, rest)) \<Rightarrow>
                if rest \<noteq> [] \<or> n > 8 * iplen then None
                else (case CIDRMask n (8 * iplen) of
                        None \<Rightarrow> None
                      | Some m \<Rightarrow> Some \<lparr>IP = IP_Mask p m, Mask = m\<rparr>)
            | _ \<Rightarrow> None))"

subsection \<open>Go library: regexp\<close>

text \<open>
  \<open>utf8.DecodeRuneInString\<close>, as far as the matcher needs it: the number of bytes of the
  first code point. An ASCII byte, and a byte that starts no valid encoding, has width 1.
  \<open>utf8First\<close> gives, for a byte that starts an encoding of several bytes, the size of
  the encoding and the range its second byte must lie in.
\<close>

definition utf8First :: "nat \<Rightarrow> (nat \<times> nat \<times> nat) option" where
  "utf8First b =
     (if b < 0xC2 then None
      else if b < 0xE0 then Some (2, 0x80, 0xBF)
      else if b = 0xE0 then Some (3, 0xA0, 0xBF)
      else if b < 0xED then Some (3, 0x80, 0xBF)
      else if b = 0xED then Some (3, 0x80, 0x9F)
      else if b < 0xF0 then Some (3, 0x80, 0xBF)
      else if b = 0xF0 then Some (4, 0x90, 0xBF)
      else if b < 0xF4 then Some (4, 0x80, 0xBF)
      else if b = 0xF4 then Some (4, 0x80, 0x8F)
      else None)"

definition isCont :: "char \<Rightarrow> bool" where
  "isCont c = (0x80 \<le> (of_char c :: nat) \<and> (of_char c :: nat) \<le> 0xBF)"

definition runeWidth :: "string \<Rightarrow> nat" where
  "runeWidth s =
     (case s of
        [] \<Rightarrow> 0
      | c0 # r \<Rightarrow>
          (case utf8First (of_char c0) of
             None \<Rightarrow> 1
           | Some (sz, lo, hi) \<Rightarrow>
               if length s < sz then 1
               else if (of_char (r ! 0) :: nat) < lo \<or> hi < (of_char (r ! 0) :: nat) then 1
               else if sz \<le> 2 then 2
               else if \<not> isCont (r ! 1) then 1
               else if sz \<le> 3 then 3
               else if \<not> isCont (r ! 2) then 1
               else 4))"

text \<open>
  The regular expressions block.go needs: a literal byte, \<open>.\<close> (any code point but a
  newline), a negated one-character class such as \<open>[^/]\<close>, concatenation, \<open>?\<close>, \<open>+\<close> and
  the capturing group.
\<close>

datatype regex =
    Lit char
  | AnyCharNotNL
  | NotLit char
  | Cat regex regex
  | Quest regex
  | Plus regex
  | Cap regex

text \<open>
  The matcher is a backtracking one. A state is the text still to be read and the text
  of the capturing group; \<open>rmatch r st\<close> lists the states in which \<open>r\<close> can end when it
  starts in \<open>st\<close>, in the order of preference of Go's leftmost-first matching (\<open>?\<close> and
  \<open>+\<close> are greedy: the longer match comes first).
\<close>

function rmatch :: "regex \<Rightarrow> string \<times> string option \<Rightarrow> (string \<times> string option) list" where
  "rmatch (Lit c) (s, g) = (case s of [] \<Rightarrow> [] | x # xs \<Rightarrow> if x = c then [(xs, g)] else [])"
| "rmatch AnyCharNotNL (s, g) =
     (case s of [] \<Rightarrow> [] | x # xs \<Rightarrow> if x = CHR 0x0A then [] else [(drop (runeWidth s) s, g)])"
| "rmatch (NotLit c) (s, g) =
     (case s of [] \<Rightarrow> [] | x # xs \<Rightarrow> if x = c then [] else [(drop (runeWidth s) s, g)])"
| "rmatch (Cat a b) st = concat (map (rmatch b) (rmatch a st))"
| "rmatch (Quest a) st = rmatch a st @ [st]"
| "rmatch (Plus a) (s, g) =
     concat (map (\<lambda>st'. (if length (fst st') < length s then rmatch (Plus a) st' else []) @ [st'])
                 (rmatch a (s, g)))"
| "rmatch (Cap a) (s, g) =
     map (\<lambda>st'. (fst st', Some (take (length s - length (fst st')) s))) (rmatch a (s, g))"
  by pat_completeness auto
termination
  by (relation "measures [\<lambda>(r, st). size r, \<lambda>(r, st). length (fst st)]") auto

text \<open>A literal string followed by \<open>k\<close>.\<close>

fun lits :: "string \<Rightarrow> regex \<Rightarrow> regex" where
  "lits [] k = k"
| "lits (c # cs) k = Cat (Lit c) (lits cs k)"

text \<open>
  \<open>matchBlock\<close> is the pattern \<open>^/?/calico/ipam/v2/assignment/ipv./block/([^/]+)$\<close>
  between its anchors.
\<close>

definition matchBlock :: regex where
  "matchBlock =
     Cat (Quest (Lit CHR ''/''))
       (lits ''/calico/ipam/v2/assignment/ipv''
          (Cat AnyCharNotNL (lits ''/block/'' (Cap (Plus (NotLit CHR ''/''))))))"

text \<open>
  \<open>FindAllStringSubmatch\<close> for a pattern anchored at both ends (\<open>^\<close> and \<open>$\<close> without the
  multi-line flag): a match starts at the first byte of the text and ends at its last, so
  there is at most one; it is the first way to match in the order of preference. A match
  is the list of the whole matched text and the text of the group.
\<close>

definition FindAllStringSubmatch :: "regex \<Rightarrow> string \<Rightarrow> string list list" where
  "FindAllStringSubmatch re s =
     (case filter (\<lambda>st. fst st = []) (rmatch re (s, None)) of
        [] \<Rightarrow> []
      | st # _ \<Rightarrow> [[s, case snd st of None \<Rightarrow> [] | Some c \<Rightarrow> c]])"

subsection \<open>BlockKey and its paths\<close>

record BlockKey =
  CIDR :: IPNet

datatype error = ErrorInsufficientIdentifiers

text \<open>
  \<open>defaultPath\<close> returns a string and an error; the pair is a sum here, \<open>Inl\<close> the error
  (the source returns the empty string beside it).
\<close>

definition defaultPath :: "BlockKey \<Rightarrow> error + string" where
  "defaultPath key =
     (if IP (CIDR key) = None then Inl ErrorInsufficientIdentifiers
      else
        (let c = Replace (IPNet_String (CIDR key)) CHR ''/'' CHR ''-'' 1;
             e = ''/calico/ipam/v2/assignment/ipv'' @ fmt_d (Version (CIDR key)) @ ''/block/'' @ c
         in Inr e))"

definition defaultDeletePath :: "BlockKey \<Rightarrow> error + string" where
  "defaultDeletePath key = defaultPath key"

record BlockListOptions =
  IPVersion :: "64 word"

definition defaultPathRoot :: "BlockListOptions \<Rightarrow> string" where
  "defaultPathRoot options =
     (let k = ''/calico/ipam/v2/assignment/'' in
      if IPVersion options \<noteq> 0 then k @ (''ipv'' @ fmt_d (sint (IPVersion options)) @ ''/'')
      else k)"

text \<open>
  \<open>KeyFromDefaultPath\<close> returns a \<open>Key\<close>, an interface value that is nil or a BlockKey:
  an option here. The source drops the error of \<open>ParseCIDR\<close> and dereferences the
  network, which is nil when the text is no CIDR: the run-time panic is the \<open>Inl\<close> of the
  result.
\<close>

datatype panic = NilPointerDereference | IndexOutOfRange

definition KeyFromDefaultPath :: "BlockListOptions \<Rightarrow> string \<Rightarrow> panic + BlockKey option" where
  "KeyFromDefaultPath options path =
     (let r = FindAllStringSubmatch matchBlock path in
      if length r \<noteq> 1 then Inr None
      else
        (case r ! 0 of
           [whole, g] \<Rightarrow>
             (let cidrStr = Replace g CHR ''-'' CHR ''/'' 1 in
              case ParseCIDR cidrStr of
                None \<Rightarrow> Inl NilPointerDereference
              | Some cidr \<Rightarrow> Inr (Some \<lparr>CIDR = cidr\<rparr>))
         | _ \<Rightarrow> Inl IndexOutOfRange))"


section \<open>The allocation block\<close>

text \<open>
  The block as block.go declares it. A pointer is an option (\<open>None\<close> is nil), a slice and a
  map are options of lists for the same reason, a map being the list of its entries in
  the order of their keys. The numbers of a block are positions in its own slices, where
  no arithmetic can overflow: they are integers. The field \<open>CIDR\<close> of the block is
  \<open>BlockCIDR\<close> here, the key having the name already.
\<close>

record AllocationAttribute =
  AttrPrimary :: "string option"
  AttrSecondary :: "(string \<times> string) list option"

record AllocationBlock =
  BlockCIDR :: IPNet
  HostAffinity :: "string option"
  StrictAffinity :: bool
  Allocations :: "int option list option"
  Unallocated :: "int list option"
  Attributes :: "AllocationAttribute list option"

subsection \<open>Go library: encoding/json\<close>

text \<open>
  A JSON text is held as the value it denotes; an object is the list of its members in
  the order they are written.
\<close>

datatype json =
    JNull
  | JBool bool
  | JNumber int
  | JString string
  | JArray "json list"
  | JObject "(string \<times> json) list"

text \<open>
  \<open>json.Marshal\<close> on the types of the block: a nil pointer, a nil slice and a nil map are
  written \<open>null\<close>, any other slice as an array and any other map as an object; a struct
  is an object with one member for every field, in the order of the declaration and
  under the name of its \<open>json\<close> tag. \<open>IPNet\<close> of lib/net writes itself as the string of the
  network.
\<close>

definition marshalPtr :: "('a \<Rightarrow> json) \<Rightarrow> 'a option \<Rightarrow> json" where
  "marshalPtr f p = (case p of None \<Rightarrow> JNull | Some v \<Rightarrow> f v)"

definition marshalSlice :: "('a \<Rightarrow> json) \<Rightarrow> 'a list option \<Rightarrow> json" where
  "marshalSlice f s = (case s of None \<Rightarrow> JNull | Some vs \<Rightarrow> JArray (map f vs))"

definition marshalMap :: "(string \<times> string) list option \<Rightarrow> json" where
  "marshalMap m = (case m of None \<Rightarrow> JNull | Some kvs \<Rightarrow> JObject (map (\<lambda>(k, v). (k, JString v)) kvs))"

definition marshalAttribute :: "AllocationAttribute \<Rightarrow> json" where
  "marshalAttribute a =
     JObject [(''handle_id'', marshalPtr JString (AttrPrimary a)),
              (''secondary'', marshalMap (AttrSecondary a))]"

definition marshalBlock :: "AllocationBlock \<Rightarrow> json" where
  "marshalBlock b =
     JObject [(''cidr'', JString (IPNet_String (BlockCIDR b))),
              (''hostAffinity'', marshalPtr JString (HostAffinity b)),
              (''strictAffinity'', JBool (StrictAffinity b)),
              (''allocations'', marshalSlice (marshalPtr JNumber) (Allocations b)),
              (''unallocated'', marshalSlice JNumber (Unallocated b)),
              (''attributes'', marshalSlice marshalAttribute (Attributes b))]"

text \<open>The shapes of JSON values that the wire contract names.\<close>

definition isNumber :: "json \<Rightarrow> bool" where
  "isNumber j = (case j of JNumber _ \<Rightarrow> True | _ \<Rightarrow> False)"

definition isString :: "json \<Rightarrow> bool" where
  "isString j = (case j of JString _ \<Rightarrow> True | _ \<Rightarrow> False)"

definition nullOr :: "(json \<Rightarrow> bool) \<Rightarrow> json \<Rightarrow> bool" where
  "nullOr P j = (j = JNull \<or> P j)"

definition arrayOf :: "(json \<Rightarrow> bool) \<Rightarrow> json \<Rightarrow> bool" where
  "arrayOf P j = (case j of JArray xs \<Rightarrow> list_all P xs | _ \<Rightarrow> False)"

definition isStringMap :: "json \<Rightarrow> bool" where
  "isStringMap j = (case j of JObject kvs \<Rightarrow> list_all (\<lambda>kv. isString (snd kv)) kvs | _ \<Rightarrow> False)"

definition isAttribute :: "json \<Rightarrow> bool" where
  "isAttribute j =
     (case j of
        JObject [(n1, p), (n2, s)] \<Rightarrow>
          n1 = ''handle_id'' \<and> n2 = ''secondary'' \<and> nullOr isString p \<and> nullOr isStringMap s
      | _ \<Rightarrow> False)"


section \<open>The ledger of a block\<close>

text \<open>
  block.go declares the block; the operations on it (creation, allocation, release,
  compaction) are not among the sources. They are modelled from section 4.3 of the
  specification.
\<close>

text \<open>The elements of a slice; a nil slice has none.\<close>

definition elems :: "'a list option \<Rightarrow> 'a list" where
  "elems s = (case s of None \<Rightarrow> [] | Some xs \<Rightarrow> xs)"

text \<open>
  Modelled from the spec: the failures of the operations on a ledger (the error values are
  missing), \<open>AlreadyUnallocated\<close> with the ordinal it is about.
\<close>

datatype ledger_error = AffinityViolation | AlreadyUnallocated int

text \<open>
  Modelled from the spec: the number of ordinals of a block, one for every address of
  its CIDR (the function that sizes a block is missing).
\<close>

definition blockSize :: "IPNet \<Rightarrow> nat" where
  "blockSize c =
     (case simpleMaskLength (Mask c) of
        None \<Rightarrow> 0
      | Some l \<Rightarrow> 2 ^ (8 * length (Mask c) - l))"

text \<open>
  Modelled from the spec: creation of a ledger (the constructor is missing). The table
  has an empty entry for every ordinal, every ordinal is in \<open>Unallocated\<close> and there is no
  attribute record.
\<close>

definition newBlock :: "IPNet \<Rightarrow> string option \<Rightarrow> bool \<Rightarrow> AllocationBlock" where
  "newBlock c host strict =
     \<lparr>BlockCIDR = c, HostAffinity = host, StrictAffinity = strict,
      Allocations = Some (replicate (blockSize c) None),
      Unallocated = Some (map int [0..<blockSize c]),
      Attributes = Some []\<rparr>"

text \<open>
  Modelled from the spec: the look-up of an attribute record (missing), the index of the
  first record of identical content.
\<close>

fun findAttr :: "AllocationAttribute list \<Rightarrow> AllocationAttribute \<Rightarrow> nat option" where
  "findAttr [] a = None"
| "findAttr (x # xs) a = (if x = a then Some 0 else map_option Suc (findAttr xs a))"

text \<open>
  Modelled from the spec: \<open>Allocate\<close> (missing). It fails with \<open>AffinityViolation\<close>, and
  touches nothing, when the block is strictly affine to another host. Otherwise it takes
  up to \<open>count\<close> ordinals from \<open>Unallocated\<close>, in the order of the list, looks up or
  creates the one attribute record, removes the ordinals from \<open>Unallocated\<close> and sets
  their entries to the index of the record. It returns the block and the ordinals.
\<close>

definition Allocate ::
  "AllocationBlock \<Rightarrow> int \<Rightarrow> string option \<Rightarrow> (string \<times> string) list option \<Rightarrow> string
     \<Rightarrow> ledger_error + (AllocationBlock \<times> int list)" where
  "Allocate b count handleID secondaryAttrs hostID =
     (if StrictAffinity b \<and> HostAffinity b \<noteq> None \<and> HostAffinity b \<noteq> Some hostID
      then Inl AffinityViolation
      else
        (let chosen = take (nat count) (remdups (elems (Unallocated b)));
             attr = \<lparr>AttrPrimary = handleID, AttrSecondary = secondaryAttrs\<rparr>;
             attrs = elems (Attributes b);
             (attrs', idx) = (case findAttr attrs attr of
                                Some i \<Rightarrow> (attrs, i)
                              | None \<Rightarrow> (attrs @ [attr], length attrs))
         in Inr (b\<lparr>Allocations :=
                     Some (foldl (\<lambda>a n. a[nat n := Some (int idx)]) (elems (Allocations b)) chosen),
                   Unallocated := Some (filter (\<lambda>n. n \<notin> set chosen) (elems (Unallocated b))),
                   Attributes := Some attrs'\<rparr>,
                 chosen)))"

text \<open>
  Modelled from the spec: \<open>Release\<close> (missing). Every ordinal is handled for itself: an
  allocated one has its entry cleared and goes back into \<open>Unallocated\<close>; one that is free
  already is reported as \<open>AlreadyUnallocated\<close> and changes nothing, and so is one outside
  the table.
\<close>

definition releaseOne :: "AllocationBlock \<times> ledger_error list \<Rightarrow> int \<Rightarrow> AllocationBlock \<times> ledger_error list" where
  "releaseOne st n =
     (let b = fst st; a = elems (Allocations b) in
      if 0 \<le> n \<and> n < int (length a) \<and> a ! nat n \<noteq> None
      then (b\<lparr>Allocations := Some (a[nat n := None]),
              Unallocated := Some (elems (Unallocated b) @ [n])\<rparr>, snd st)
      else (b, snd st @ [AlreadyUnallocated n]))"

text \<open>
  Modelled from the spec: \<open>Release\<close> of a batch of ordinals, one after the other, with the
  failures collected.
\<close>

definition Release :: "AllocationBlock \<Rightarrow> int list \<Rightarrow> AllocationBlock \<times> ledger_error list" where
  "Release b ordinals = foldl releaseOne (b, []) ordinals"

text \<open>
  Modelled from the spec: the ordinals that \<open>ReleaseByHandle\<close> (missing) releases, those
  whose attribute record has the handle as its primary handle.
\<close>

definition handleOrdinals :: "AllocationBlock \<Rightarrow> string \<Rightarrow> int list" where
  "handleOrdinals b handleID =
     (let a = elems (Allocations b); attrs = elems (Attributes b) in
      map int (filter (\<lambda>i. case a ! i of
                         None \<Rightarrow> False
                       | Some j \<Rightarrow> 0 \<le> j \<and> j < int (length attrs)
                                    \<and> AttrPrimary (attrs ! nat j) = Some handleID)
                 [0..<length a]))"

text \<open>Modelled from the spec: \<open>ReleaseByHandle\<close> (missing), the release of these ordinals.\<close>

definition ReleaseByHandle :: "AllocationBlock \<Rightarrow> string \<Rightarrow> AllocationBlock" where
  "ReleaseByHandle b handleID = fst (Release b (handleOrdinals b handleID))"

text \<open>
  Modelled from the spec: the new index of an attribute record in \<open>Compact\<close> (missing), its
  place among the records that are kept.
\<close>

fun indexOf :: "nat list \<Rightarrow> nat \<Rightarrow> nat option" where
  "indexOf [] i = None"
| "indexOf (x # xs) i = (if x = i then Some 0 else map_option Suc (indexOf xs i))"

text \<open>
  Modelled from the spec: \<open>Compact\<close> (missing) drops the attribute records that no entry
  refers to and renumbers the entries; which ordinals are allocated does not change.
\<close>

definition Compact :: "AllocationBlock \<Rightarrow> AllocationBlock" where
  "Compact b =
     (let a = elems (Allocations b); attrs = elems (Attributes b);
          kept = filter (\<lambda>i. Some (int i) \<in> set a) [0..<length attrs];
          renumber = (\<lambda>j. if j < 0 then j
                           else case indexOf kept (nat j) of None \<Rightarrow> j | Some k \<Rightarrow> int k)
      in b\<lparr>Allocations := Some (map (map_option renumber) a),
           Attributes := Some (map (\<lambda>i. attrs ! i) kept)\<rparr>)"

text \<open>
  Modelled from the spec: the blocks that committed mutations lead to, from a creation by
  allocations, releases and compactions.
\<close>

inductive reachable :: "AllocationBlock \<Rightarrow> bool" where
  created: "reachable (newBlock c host strict)"
| allocated: "reachable b \<Longrightarrow> Allocate b count handleID secondaryAttrs hostID = Inr (b', ordinals)
     \<Longrightarrow> reachable b'"
| released: "reachable b \<Longrightarrow> reachable (fst (Release b ordinals))"
| released_handle: "reachable b \<Longrightarrow> reachable (ReleaseByHandle b handleID)"
| compacted: "reachable b \<Longrightarrow> reachable (Compact b)"

text \<open>
  Modelled from the spec: the first invariant of the ledger. An ordinal of the table is
  in \<open>Unallocated\<close> exactly when its entry is empty, and \<open>Unallocated\<close> holds ordinals of
  the table only.
\<close>

definition partitioned :: "AllocationBlock \<Rightarrow> bool" where
  "partitioned b =
     (let a = elems (Allocations b); u = elems (Unallocated b) in
      list_all (\<lambda>i. (a ! i = None) = (int i \<in> set u)) [0..<length a]
      \<and> list_all (\<lambda>n. 0 \<le> n \<and> n < int (length a)) u)"


section \<open>Notions for the proofs\<close>

text \<open>
  The definitions below are no part of the program. They say what the program is proved
  to do.
\<close>

text \<open>
  A direct reading of a path: \<open>blockTail\<close> reads the fixed prefix of a block path, one code
  point that is not a newline, the text \<open>/block/\<close> and a last segment without slash;
  \<open>blockSeg\<close> tries it after one leading slash first.
\<close>

definition blockPrefix :: string where
  "blockPrefix = ''/calico/ipam/v2/assignment/ipv''"

definition blockInfix :: string where
  "blockInfix = ''/block/''"

definition blockTail :: "string \<Rightarrow> string option" where
  "blockTail s =
     (if take (length blockPrefix) s \<noteq> blockPrefix then None
      else
        (let s1 = drop (length blockPrefix) s in
         if s1 = [] \<or> hd s1 = CHR 0x0A then None
         else
           (let s2 = drop (runeWidth s1) s1 in
            if take (length blockInfix) s2 \<noteq> blockInfix then None
            else
              (let seg = drop (length blockInfix) s2 in
               if seg \<noteq> [] \<and> CHR ''/'' \<notin> set seg then Some seg else None))))"

definition blockSeg :: "string \<Rightarrow> string option" where
  "blockSeg p =
     (case (if p \<noteq> [] \<and> hd p = CHR ''/'' then blockTail (tl p) else None) of
        Some seg \<Rightarrow> Some seg
      | None \<Rightarrow> blockTail p)"

text \<open>
  A string is \<open>plain\<close> when it has neither a slash nor a dash. The text of an address and
  of a prefix length are plain, so the string of a network has at most one slash and no
  dash, and the two substitutions of the codec undo each other on it.
\<close>

definition plain :: "string \<Rightarrow> bool" where
  "plain s = (CHR ''/'' \<notin> set s \<and> CHR ''-'' \<notin> set s)"

text \<open>
  \<open>decValue\<close> reads a string of decimal digits as a number. It is the measure of what
  \<open>uitoa\<close> and \<open>fmt_d\<close> print, and is no part of the program.
\<close>

definition decValue :: "string \<Rightarrow> nat" where
  "decValue ds = foldl (\<lambda>n c. n * 10 + (of_char c - 48)) 0 ds"


text \<open>The first invariant of the ledger on the table and the free list themselves.\<close>

definition part :: "int option list \<Rightarrow> int list \<Rightarrow> bool" where
  "part a u = ((\<forall>i < length a. (a ! i = None) = (int i \<in> set u))
               \<and> (\<forall>n \<in> set u. 0 \<le> n \<and> n < int (length a)))"


section \<open>What the block pattern accepts\<close>

text \<open>
  The matcher run on \<open>matchBlock\<close> is characterised by a direct reading of the path:
  \<open>blockTail\<close> reads the fixed prefix, one code point that is not a newline, the text
  \<open>/block/\<close> and a last segment without slash; \<open>blockSeg\<close> tries it after one leading
  slash first, as the greedy \<open>/?\<close> does.
\<close>

declare rmatch.simps [simp del]

lemma rmatch_lits:
  "rmatch (lits l k) (s, g) = (if take (length l) s = l then rmatch k (drop (length l) s, g) else [])"
proof (induction l arbitrary: s)
  case Nil
  then show ?case by simp
next
  case (Cons c cs)
  show ?case
  proof (cases s)
    case Nil
    then show ?thesis by (simp add: rmatch.simps)
  next
    case (Cons x xs)
    then show ?thesis using Cons.IH [of xs] by (simp add: rmatch.simps)
  qed
qed

lemma runeWidth_pos: "s \<noteq> [] \<Longrightarrow> 1 \<le> runeWidth s"
  by (auto simp: runeWidth_def utf8First_def split: list.splits option.splits if_splits)

lemma runeWidth_le: "runeWidth s \<le> length s"
  by (auto simp: runeWidth_def utf8First_def Suc_le_eq split: list.splits option.splits if_splits)


text \<open>The bytes of a code point after its first are not ASCII.\<close>

lemma runeWidth_tail_high:
  assumes "0 < i" "i < runeWidth s"
  shows "(0x80::nat) \<le> of_char (s ! i)"
proof -
  obtain c0 r where s: "s = c0 # r" using assms by (cases s) (auto simp: runeWidth_def)
  obtain j where i: "i = Suc j" using assms(1) by (cases i) auto
  have "j = 0 \<or> j = 1 \<or> j = 2 \<or> 3 \<le> j" by arith
  then show ?thesis
    using assms(2) unfolding s i
    by (auto simp: runeWidth_def utf8First_def isCont_def split: option.splits if_splits)
qed

lemma rmatch_NotLit:
  "rmatch (NotLit c) (s, g) = (if s = [] \<or> hd s = c then [] else [(drop (runeWidth s) s, g)])"
  by (cases s) (auto simp: rmatch.simps)

lemma rmatch_AnyCharNotNL:
  "rmatch AnyCharNotNL (s, g) = (if s = [] \<or> hd s = CHR 0x0A then [] else [(drop (runeWidth s) s, g)])"
  by (cases s) (auto simp: rmatch.simps)

lemma rmatch_Plus_NotLit:
  "rmatch (Plus (NotLit c)) (s, g) =
     (if s = [] \<or> hd s = c then []
      else rmatch (Plus (NotLit c)) (drop (runeWidth s) s, g) @ [(drop (runeWidth s) s, g)])"
proof (cases "s = [] \<or> hd s = c")
  case True
  then show ?thesis by (simp add: rmatch.simps(6) rmatch_NotLit)
next
  case False
  then have "length (drop (runeWidth s) s) < length s"
    using runeWidth_pos [of s] by simp
  with False show ?thesis by (simp add: rmatch.simps(6) rmatch_NotLit)
qed

lemma Plus_NotLit_end:
  assumes "(of_char c :: nat) < 0x80"
  shows "filter (\<lambda>st. fst st = []) (rmatch (Plus (NotLit c)) (s, g)) =
           (if s \<noteq> [] \<and> c \<notin> set s then [([], g)] else [])"
proof (induction "length s" arbitrary: s rule: less_induct)
  case less
  show ?case
  proof (cases "s = [] \<or> hd s = c")
    case True
    then have "s = [] \<or> c \<in> set s" by (cases s) auto
    with True show ?thesis by (subst rmatch_Plus_NotLit) auto
  next
    case False
    let ?w = "runeWidth s"
    let ?r = "drop ?w s"
    have w: "1 \<le> ?w" "?w \<le> length s" using False runeWidth_pos runeWidth_le by auto
    then have shorter: "length ?r < length s" using False by simp
    have tk: "c \<notin> set (take ?w s)"
    proof
      assume "c \<in> set (take ?w s)"
      then obtain i where i: "i < ?w" "s ! i = c"
        using w by (auto simp: in_set_conv_nth)
      show False
      proof (cases i)
        case 0
        then show False using i False by (cases s) auto
      next
        case (Suc j)
        then show False using runeWidth_tail_high [of i s] i assms by simp
      qed
    qed
    have split: "set s = set (take ?w s) \<union> set ?r"
      by (metis append_take_drop_id set_append)
    have IH: "filter (\<lambda>st. fst st = []) (rmatch (Plus (NotLit c)) (?r, g)) =
           (if ?r \<noteq> [] \<and> c \<notin> set ?r then [([], g)] else [])"
      using less [OF shorter] .
    show ?thesis
      using False IH tk split
      by (subst rmatch_Plus_NotLit) auto
  qed
qed


lemma matchBlock_alt:
  "matchBlock =
     Cat (Quest (Lit CHR ''/''))
       (lits blockPrefix (Cat AnyCharNotNL (lits blockInfix (Cap (Plus (NotLit CHR ''/''))))))"
  by (simp add: matchBlock_def blockPrefix_def blockInfix_def)

lemma rmatch_Cap_end:
  "filter (\<lambda>st. fst st = []) (rmatch (Cap a) (s, g)) =
     map (\<lambda>st. ([], Some s)) (filter (\<lambda>st. fst st = []) (rmatch a (s, g)))"
  by (simp add: rmatch.simps(7) filter_map o_def)

lemma rmatch_group_end:
  "filter (\<lambda>st. fst st = []) (rmatch (Cap (Plus (NotLit CHR ''/''))) (s, g)) =
     (if s \<noteq> [] \<and> CHR ''/'' \<notin> set s then [([], Some s)] else [])"
  by (simp add: rmatch_Cap_end Plus_NotLit_end)

lemma rmatch_tail_end:
  "filter (\<lambda>st. fst st = [])
     (rmatch (lits blockPrefix
        (Cat AnyCharNotNL (lits blockInfix (Cap (Plus (NotLit CHR ''/'')))))) (s, g)) =
   (case blockTail s of None \<Rightarrow> [] | Some seg \<Rightarrow> [([], Some seg)])"
  by (simp add: rmatch_lits rmatch.simps(4) rmatch_AnyCharNotNL rmatch_group_end blockTail_def Let_def)

lemma rmatch_Quest_Lit:
  "rmatch (Quest (Lit c)) (s, g) = (if s \<noteq> [] \<and> hd s = c then [(tl s, g)] else []) @ [(s, g)]"
  by (cases s) (auto simp: rmatch.simps)

lemma FindAll_matchBlock:
  "FindAllStringSubmatch matchBlock p = (case blockSeg p of None \<Rightarrow> [] | Some seg \<Rightarrow> [[p, seg]])"
  unfolding FindAllStringSubmatch_def matchBlock_alt
  by (simp add: rmatch.simps(4) rmatch_Quest_Lit rmatch_tail_end blockSeg_def split: option.splits)

lemma KeyFromDefaultPath_blockSeg:
  "KeyFromDefaultPath options p =
     (case blockSeg p of
        None \<Rightarrow> Inr None
      | Some seg \<Rightarrow>
          (case ParseCIDR (Replace seg CHR ''-'' CHR ''/'' 1) of
             None \<Rightarrow> Inl NilPointerDereference
           | Some cidr \<Rightarrow> Inr (Some \<lparr>CIDR = cidr\<rparr>)))"
  by (simp add: KeyFromDefaultPath_def FindAll_matchBlock Let_def split: option.splits)

text \<open>The same syntax as a decomposition of the path.\<close>

lemma take_length_eq: "(take (length l) s = l) = (\<exists>r. s = l @ r)"
  by (metis append_eq_conv_conj append_take_drop_id)

lemma blockTail_Some_iff:
  "(blockTail s = Some seg) =
     (\<exists>rest. s = blockPrefix @ rest \<and> rest \<noteq> [] \<and> hd rest \<noteq> CHR 0x0A
        \<and> drop (runeWidth rest) rest = blockInfix @ seg \<and> seg \<noteq> [] \<and> CHR ''/'' \<notin> set seg)"
proof
  assume "blockTail s = Some seg"
  then have a: "take (length blockPrefix) s = blockPrefix"
    and b: "drop (length blockPrefix) s \<noteq> []" "hd (drop (length blockPrefix) s) \<noteq> CHR 0x0A"
    and c: "take (length blockInfix) (drop (runeWidth (drop (length blockPrefix) s)) (drop (length blockPrefix) s)) = blockInfix"
    and d: "seg = drop (length blockInfix) (drop (runeWidth (drop (length blockPrefix) s)) (drop (length blockPrefix) s))"
       "seg \<noteq> []" "CHR ''/'' \<notin> set seg"
    by (auto simp: blockTail_def Let_def split: if_splits)
  let ?rest = "drop (length blockPrefix) s"
  have "s = blockPrefix @ ?rest" using a by (metis append_take_drop_id)
  moreover have "drop (runeWidth ?rest) ?rest = blockInfix @ seg"
    using c d(1) by (metis append_take_drop_id)
  ultimately show "\<exists>rest. s = blockPrefix @ rest \<and> rest \<noteq> [] \<and> hd rest \<noteq> CHR 0x0A
        \<and> drop (runeWidth rest) rest = blockInfix @ seg \<and> seg \<noteq> [] \<and> CHR ''/'' \<notin> set seg"
    using b d by blast
next
  assume "\<exists>rest. s = blockPrefix @ rest \<and> rest \<noteq> [] \<and> hd rest \<noteq> CHR 0x0A
        \<and> drop (runeWidth rest) rest = blockInfix @ seg \<and> seg \<noteq> [] \<and> CHR ''/'' \<notin> set seg"
  then obtain rest where r: "s = blockPrefix @ rest" "rest \<noteq> []" "hd rest \<noteq> CHR 0x0A"
    "drop (runeWidth rest) rest = blockInfix @ seg" "seg \<noteq> []" "CHR ''/'' \<notin> set seg"
    by blast
  then show "blockTail s = Some seg"
    by (simp add: blockTail_def Let_def)
qed

lemma blockTail_starts: "blockTail s = Some seg \<Longrightarrow> \<exists>t. s = CHR ''/'' # CHR ''c'' # t"
  by (auto simp: blockTail_Some_iff blockPrefix_def)

lemma blockSeg_Some_iff:
  "(blockSeg p = Some seg) =
     (\<exists>lead rest. p = lead @ blockPrefix @ rest \<and> (lead = [] \<or> lead = ''/'')
        \<and> rest \<noteq> [] \<and> hd rest \<noteq> CHR 0x0A
        \<and> drop (runeWidth rest) rest = blockInfix @ seg \<and> seg \<noteq> [] \<and> CHR ''/'' \<notin> set seg)"
  (is "?L = ?R")
proof
  assume ?L
  then consider (slash) "p \<noteq> []" "hd p = CHR ''/''" "blockTail (tl p) = Some seg"
    | (plain) "blockTail p = Some seg"
    by (auto simp: blockSeg_def split: option.splits if_splits)
  then show ?R
  proof cases
    case slash
    then obtain rest where "tl p = blockPrefix @ rest" "rest \<noteq> []" "hd rest \<noteq> CHR 0x0A"
      "drop (runeWidth rest) rest = blockInfix @ seg" "seg \<noteq> []" "CHR ''/'' \<notin> set seg"
      by (auto simp: blockTail_Some_iff)
    moreover have "p = ''/'' @ tl p" using slash by (cases p) auto
    ultimately show ?thesis by metis
  next
    case plain
    then show ?thesis by (auto simp: blockTail_Some_iff)
  qed
next
  assume ?R
  then obtain lead rest where r: "p = lead @ blockPrefix @ rest" "lead = [] \<or> lead = ''/''"
    and t: "blockTail (blockPrefix @ rest) = Some seg"
    by (auto simp: blockTail_Some_iff)
  from r(2) show ?L
  proof
    assume "lead = []"
    then have p: "p = blockPrefix @ rest" using r by simp
    have "blockTail (tl p) = None"
    proof (cases "blockTail (tl p)")
      case (Some x)
      then show ?thesis using blockTail_starts [OF Some] p by (auto simp: blockPrefix_def)
    qed simp
    then show ?L using t p by (simp add: blockSeg_def)
  next
    assume "lead = ''/''"
    then have p: "p = CHR ''/'' # blockPrefix @ rest" using r by simp
    then show ?L using t by (simp add: blockSeg_def)
  qed
qed

section \<open>The characters of a CIDR string\<close>


lemma plain_Nil [simp]: "plain []"
  by (simp add: plain_def)





lemma uitoa_not_Nil: "uitoa n \<noteq> []"
  by (subst uitoa.simps) simp











section \<open>Running the parser on a given text\<close>

text \<open>
  The equations that unfold the model on a concrete path or CIDR string, for the
  simplifier.
\<close>

lemma parseOctets_numeral:
  "parseOctets (numeral k) first s =
     (case s of
        [] \<Rightarrow> None
      | c # cs \<Rightarrow>
          if \<not> first \<and> c \<noteq> CHR ''.'' then None
          else
            (case dtoi (if first then s else cs) of
               None \<Rightarrow> None
             | Some (n, rest) \<Rightarrow>
                 if n > 0xFF then None
                 else if length (if first then s else cs) - length rest > 1
                     \<and> hd (if first then s else cs) = CHR ''0'' then None
                 else
                   (case parseOctets (pred_numeral k) False rest of
                      None \<Rightarrow> None
                    | Some (bs, rest') \<Rightarrow> Some (of_nat n # bs, rest'))))"
  by (simp only: numeral_eq_Suc [of k] parseOctets.simps)

lemma maskBytes_numeral:
  "maskBytes (numeral k) n =
     (if n \<ge> 8 then 0xff # maskBytes (pred_numeral k) (n - 8)
      else NOT (drop_bit n (0xff :: byte)) # maskBytes (pred_numeral k) 0)"
  by (simp only: numeral_eq_Suc [of k] maskBytes.simps)

lemmas parse_eval =
  parseOctets_numeral maskBytes_numeral parseIPv4_def dtoi_def isDigit_def big_def
  ParseCIDR_def CIDRMask_def IP_Mask_def IPv4len_def IPv6len_def v4InV6Prefix_def Let_def

lemmas seg_eval =
  blockSeg_def blockTail_def blockPrefix_def blockInfix_def runeWidth_def utf8First_def Let_def




lemmas string_eval =
  IPNet_String_def networkNumberAndMask_def To4_def len_def IPv4len_def IPv6len_def v4InV6Prefix_def
  onesOfByte_def IP_String_def uitoa.simps decDigit_def Version_def fmt_d_def defaultPath_def Let_def


text \<open>Decoding gives nil exactly when the path is not of the pattern.\<close>

lemma FindAll_empty_iff: "(FindAllStringSubmatch matchBlock p = []) = (blockSeg p = None)"
  by (simp add: FindAll_matchBlock split: option.splits)

lemma KeyFromDefaultPath_nil_iff:
  "(KeyFromDefaultPath options p = Inr None) = (blockSeg p = None)"
  by (simp add: KeyFromDefaultPath_blockSeg split: option.splits)

lemma blockSeg_shape_opaque:
  "(blockSeg p \<noteq> None) =
     (\<exists>lead rest seg.
        p = lead @ blockPrefix @ rest \<and> (lead = [] \<or> lead = ''/'')
        \<and> rest \<noteq> [] \<and> hd rest \<noteq> CHR 0x0A
        \<and> drop (runeWidth rest) rest = blockInfix @ seg \<and> seg \<noteq> [] \<and> CHR ''/'' \<notin> set seg)"
proof -
  have "(blockSeg p \<noteq> None) = (\<exists>seg. blockSeg p = Some seg)" by auto
  then show ?thesis unfolding blockSeg_Some_iff by blast
qed

lemma blockSeg_shape:
  "(blockSeg p \<noteq> None) =
     (\<exists>lead rest seg.
        p = lead @ ''/calico/ipam/v2/assignment/ipv'' @ rest \<and> (lead = [] \<or> lead = ''/'')
        \<and> rest \<noteq> [] \<and> hd rest \<noteq> CHR 0x0A
        \<and> drop (runeWidth rest) rest = ''/block/'' @ seg \<and> seg \<noteq> [] \<and> CHR ''/'' \<notin> set seg)"
  using blockSeg_shape_opaque [of p] unfolding blockPrefix_def blockInfix_def .


section \<open>What \<open>%d\<close> prints\<close>

lemma decDigit_code: "d < 10 \<Longrightarrow> (of_char (decDigit d) :: nat) = 48 + d"
proof -
  assume "d < 10"
  then have "d = 0 \<or> d = 1 \<or> d = 2 \<or> d = 3 \<or> d = 4 \<or> d = 5 \<or> d = 6 \<or> d = 7 \<or> d = 8 \<or> d = 9"
    by presburger
  then show ?thesis by (elim disjE) (simp_all add: decDigit_def)
qed

lemma isDigit_decDigit: "d < 10 \<Longrightarrow> isDigit (decDigit d)"
  by (simp add: isDigit_def decDigit_code)

lemma decValue_snoc: "decValue (ds @ [c]) = decValue ds * 10 + (of_char c - 48)"
  by (simp add: decValue_def)

lemma uitoa_decValue: "decValue (uitoa n) = n"
proof (induction n rule: uitoa.induct)
  case (1 n)
  show ?case
  proof (cases "n < 10")
    case True
    then show ?thesis by (subst uitoa.simps) (simp add: decValue_def decDigit_code)
  next
    case False
    then show ?thesis using 1 by (subst uitoa.simps) (simp add: decValue_snoc decDigit_code)
  qed
qed

lemma uitoa_digits: "list_all isDigit (uitoa n)"
proof (induction n rule: uitoa.induct)
  case (1 n)
  show ?case
  proof (cases "n < 10")
    case True
    then show ?thesis by (subst uitoa.simps) (simp add: isDigit_decDigit)
  next
    case False
    then show ?thesis using 1 by (subst uitoa.simps) (simp add: isDigit_decDigit)
  qed
qed

lemma uitoa_hd: "0 < n \<Longrightarrow> hd (uitoa n) \<noteq> CHR ''0''"
proof (induction n rule: uitoa.induct)
  case (1 n)
  show ?case
  proof (cases "n < 10")
    case True
    have "(of_char (decDigit n) :: nat) \<noteq> of_char CHR ''0''"
      using True 1(2) by (simp add: decDigit_code)
    then have "decDigit n \<noteq> CHR ''0''" by auto
    then show ?thesis using True by (subst uitoa.simps) simp
  next
    case False
    then have "0 < n div 10" by simp
    then have "hd (uitoa (n div 10)) \<noteq> CHR ''0''" using 1(1) False by simp
    then show ?thesis using False uitoa_not_Nil [of "n div 10"] by (subst uitoa.simps) simp
  qed
qed

text \<open>What \<open>%d\<close> prints: an optional minus sign and the decimal digits of the absolute value,
  without leading zero.\<close>

lemma fmt_d_decimal:
  "i \<noteq> 0 \<Longrightarrow> \<exists>ds. fmt_d i = (if i < 0 then ''-'' else []) @ ds \<and> ds \<noteq> [] \<and> list_all isDigit ds
     \<and> hd ds \<noteq> CHR ''0'' \<and> int (decValue ds) = \<bar>i\<bar>"
  by (auto simp: fmt_d_def uitoa_decValue uitoa_digits uitoa_hd uitoa_not_Nil)

lemma sint_zero_iff: "(sint (w :: 64 word) = 0) = (w = 0)"
  by (simp add: signed_eq_0_iff)


section \<open>Decoding the path of a key\<close>





subsection \<open>Reading back what is printed\<close>










subsection \<open>IPv4 networks in canonical form\<close>









lemma replicate_numeral_unfold: "replicate (numeral k) x = x # replicate (pred_numeral k) x"
  by (simp only: numeral_eq_Suc [of k] replicate.simps)



section \<open>Properties of the path codec\<close>

subsection \<open>Encoding fails exactly on a key without CIDR\<close>

text \<open>
  Claim C6. \<open>defaultPath\<close> fails with \<open>ErrorInsufficientIdentifiers\<close> if and only if the
  CIDR of the key is unset (its IP is nil); it produces a path if and only if the CIDR is
  set, so a failure carries no path.
\<close>

theorem defaultPath_fails_iff_unset:
  "(defaultPath key = Inl ErrorInsufficientIdentifiers) = (IP (CIDR key) = None)
   \<and> (\<exists>p. defaultPath key = Inr p) = (IP (CIDR key) \<noteq> None)"
  by (simp add: defaultPath_def Let_def)

theorem defaultPath_fails_iff_unset_witness:
  "defaultPath \<lparr>CIDR = \<lparr>IP = None, Mask = []\<rparr>\<rparr> = Inl ErrorInsufficientIdentifiers"
  using defaultPath_fails_iff_unset [of "\<lparr>CIDR = \<lparr>IP = None, Mask = []\<rparr>\<rparr>"] by simp

subsection \<open>The path of a key\<close>




subsection \<open>A path that is not of the pattern\<close>

text \<open>
  Claim C3. For every path that does not match the block pattern \<open>KeyFromDefaultPath\<close>
  returns nil, the result "not a block key", and it does not fail. A path does not match
  when \<open>FindAllStringSubmatch\<close> finds no match of \<open>matchBlock\<close> in it; these are the paths
  that are not \<open>/calico/ipam/v2/assignment/ipv\<close>, one character that is not a newline,
  \<open>/block/\<close> and a last segment that is not empty and has no slash, with or without one
  more slash in front.
\<close>

theorem KeyFromDefaultPath_no_match:
  "((FindAllStringSubmatch matchBlock p = []) =
      (\<not> (\<exists>lead rest seg.
        p = lead @ ''/calico/ipam/v2/assignment/ipv'' @ rest \<and> (lead = [] \<or> lead = ''/'')
        \<and> rest \<noteq> [] \<and> hd rest \<noteq> CHR 0x0A
        \<and> drop (runeWidth rest) rest = ''/block/'' @ seg \<and> seg \<noteq> [] \<and> CHR ''/'' \<notin> set seg)))
   \<and> (FindAllStringSubmatch matchBlock p = [] \<longrightarrow> KeyFromDefaultPath options p = Inr None)"
proof
  have "(blockSeg p = None) = (\<not> blockSeg p \<noteq> None)" by simp
  then show "(FindAllStringSubmatch matchBlock p = []) =
      (\<not> (\<exists>lead rest seg.
        p = lead @ ''/calico/ipam/v2/assignment/ipv'' @ rest \<and> (lead = [] \<or> lead = ''/'')
        \<and> rest \<noteq> [] \<and> hd rest \<noteq> CHR 0x0A
        \<and> drop (runeWidth rest) rest = ''/block/'' @ seg \<and> seg \<noteq> [] \<and> CHR ''/'' \<notin> set seg))"
    unfolding blockSeg_shape [symmetric] FindAll_empty_iff .
  show "FindAllStringSubmatch matchBlock p = [] \<longrightarrow> KeyFromDefaultPath options p = Inr None"
    by (simp add: FindAll_empty_iff KeyFromDefaultPath_nil_iff)
qed

theorem KeyFromDefaultPath_no_match_witness:
  "FindAllStringSubmatch matchBlock ''/calico/ipam/v2/assignment/ipv4/block/10.0.0.0-30/x'' = []
   \<and> KeyFromDefaultPath \<lparr>IPVersion = 0\<rparr> ''/calico/ipam/v2/assignment/ipv4/block/10.0.0.0-30/x''
     = Inr None
   \<and> FindAllStringSubmatch matchBlock ''/calico/ipam/v2/host/node1'' = []
   \<and> KeyFromDefaultPath \<lparr>IPVersion = 0\<rparr> ''/calico/ipam/v2/host/node1'' = Inr None"
proof -
  have a: "FindAllStringSubmatch matchBlock ''/calico/ipam/v2/assignment/ipv4/block/10.0.0.0-30/x'' = []"
    by (simp add: FindAll_empty_iff seg_eval)
  have b: "FindAllStringSubmatch matchBlock ''/calico/ipam/v2/host/node1'' = []"
    by (simp add: FindAll_empty_iff seg_eval)
  show ?thesis
    using a b
      KeyFromDefaultPath_no_match [of "''/calico/ipam/v2/assignment/ipv4/block/10.0.0.0-30/x''" "\<lparr>IPVersion = 0\<rparr>"]
      KeyFromDefaultPath_no_match [of "''/calico/ipam/v2/host/node1''" "\<lparr>IPVersion = 0\<rparr>"]
    by blast
qed

subsection \<open>A path of the pattern whose segment is no CIDR\<close>

text \<open>
  Claim C4. A path that matches the pattern but whose last segment is no CIDR should be
  reported as a decode failure. The code drops the error of \<open>ParseCIDR\<close> and dereferences
  the nil network: on \<open>/calico/ipam/v2/assignment/ipv4/block/foo\<close> it panics.
\<close>

theorem KeyFromDefaultPath_nil_deref:
  "KeyFromDefaultPath \<lparr>IPVersion = 0\<rparr> ''/calico/ipam/v2/assignment/ipv4/block/foo''
     = Inl NilPointerDereference"
  by (simp add: KeyFromDefaultPath_blockSeg seg_eval parse_eval)

subsection \<open>The paths taken for block keys\<close>

text \<open>
  Claim C5, as the spec has it: only a path of the exact syntax
  \<open>/calico/ipam/v2/assignment/ipv{4|6}/block/{cidr}\<close> is taken for a block key, with
  \<open>ipv4\<close> or \<open>ipv6\<close> and nothing in front. The pattern of the code is wider: any
  character may stand for the version and one more slash may lead the path. Both paths
  below decode to the key of 10.0.0.0/30.
\<close>

theorem KeyFromDefaultPath_wider_counterexample:
  "KeyFromDefaultPath \<lparr>IPVersion = 0\<rparr> ''/calico/ipam/v2/assignment/ipv9/block/10.0.0.0-30''
     = Inr (Some \<lparr>CIDR = \<lparr>IP = Some [10, 0, 0, 0], Mask = [255, 255, 255, 252]\<rparr>\<rparr>)
   \<and> KeyFromDefaultPath \<lparr>IPVersion = 0\<rparr> ''//calico/ipam/v2/assignment/ipv4/block/10.0.0.0-30''
     = Inr (Some \<lparr>CIDR = \<lparr>IP = Some [10, 0, 0, 0], Mask = [255, 255, 255, 252]\<rparr>\<rparr>)"
  by (simp add: KeyFromDefaultPath_blockSeg seg_eval parse_eval)

text \<open>
  Claim C5, amended. \<open>KeyFromDefaultPath\<close> returns "not a block key" for exactly the
  paths that are not of this syntax: an optional extra slash, the text
  \<open>/calico/ipam/v2/assignment/ipv\<close>, one character (a code point) that is not a newline,
  \<open>/block/\<close>, and a last segment that is not empty and has no slash. Nothing else may
  stand in front of the path or after the segment.
\<close>

theorem KeyFromDefaultPath_nil_iff_syntax:
  "(KeyFromDefaultPath options p = Inr None) =
     (\<not> (\<exists>lead rest seg.
        p = lead @ ''/calico/ipam/v2/assignment/ipv'' @ rest \<and> (lead = [] \<or> lead = ''/'')
        \<and> rest \<noteq> [] \<and> hd rest \<noteq> CHR 0x0A
        \<and> drop (runeWidth rest) rest = ''/block/'' @ seg \<and> seg \<noteq> [] \<and> CHR ''/'' \<notin> set seg))"
  unfolding blockSeg_shape [symmetric] KeyFromDefaultPath_nil_iff by simp

subsection \<open>Decoding an encoded key\<close>




subsection \<open>The list-scope prefix\<close>

text \<open>
  Claim C7. \<open>defaultPathRoot\<close> is a total function without failure: for IP version 0 it
  is exactly \<open>/calico/ipam/v2/assignment/\<close>, and for any other version \<open>N\<close> it is exactly
  \<open>/calico/ipam/v2/assignment/ipvN/\<close>, where \<open>N\<close> stands in decimal: a minus sign when \<open>N\<close>
  is negative, then the digits of its absolute value, the first of them not a zero.
\<close>

theorem defaultPathRoot_value:
  "(IPVersion options = 0 \<longrightarrow> defaultPathRoot options = ''/calico/ipam/v2/assignment/'')
   \<and> (IPVersion options \<noteq> 0 \<longrightarrow>
       (\<exists>ds. defaultPathRoot options =
                ''/calico/ipam/v2/assignment/ipv''
                  @ (if sint (IPVersion options) < 0 then ''-'' else []) @ ds @ ''/''
            \<and> ds \<noteq> [] \<and> list_all isDigit ds \<and> hd ds \<noteq> CHR ''0''
            \<and> int (decValue ds) = \<bar>sint (IPVersion options)\<bar>))"
proof (intro conjI impI)
  assume "IPVersion options = 0"
  then show "defaultPathRoot options = ''/calico/ipam/v2/assignment/''"
    by (simp add: defaultPathRoot_def)
next
  assume n: "IPVersion options \<noteq> 0"
  then have "sint (IPVersion options) \<noteq> 0" by (simp add: sint_zero_iff)
  from fmt_d_decimal [OF this] obtain ds where
    ds: "fmt_d (sint (IPVersion options)) = (if sint (IPVersion options) < 0 then ''-'' else []) @ ds"
      "ds \<noteq> []" "list_all isDigit ds" "hd ds \<noteq> CHR ''0''"
      "int (decValue ds) = \<bar>sint (IPVersion options)\<bar>"
    by blast
  have "defaultPathRoot options =
      ''/calico/ipam/v2/assignment/ipv'' @ fmt_d (sint (IPVersion options)) @ ''/''"
    using n by (simp add: defaultPathRoot_def)
  then show "\<exists>ds. defaultPathRoot options =
                ''/calico/ipam/v2/assignment/ipv''
                  @ (if sint (IPVersion options) < 0 then ''-'' else []) @ ds @ ''/''
            \<and> ds \<noteq> [] \<and> list_all isDigit ds \<and> hd ds \<noteq> CHR ''0''
            \<and> int (decValue ds) = \<bar>sint (IPVersion options)\<bar>"
    using ds by (intro exI [of _ ds]) simp
qed

theorem defaultPathRoot_value_witness:
  "defaultPathRoot \<lparr>IPVersion = 0\<rparr> = ''/calico/ipam/v2/assignment/''
   \<and> (\<exists>ds. defaultPathRoot \<lparr>IPVersion = 4\<rparr> = ''/calico/ipam/v2/assignment/ipv'' @ ds @ ''/''
         \<and> ds \<noteq> [] \<and> list_all isDigit ds \<and> hd ds \<noteq> CHR ''0'' \<and> int (decValue ds) = 4)
   \<and> defaultPathRoot \<lparr>IPVersion = 4\<rparr> = ''/calico/ipam/v2/assignment/ipv4/''
   \<and> defaultPathRoot \<lparr>IPVersion = 6\<rparr> = ''/calico/ipam/v2/assignment/ipv6/''
   \<and> defaultPathRoot \<lparr>IPVersion = - 1\<rparr> = ''/calico/ipam/v2/assignment/ipv-1/''"
proof -
  have e: "defaultPathRoot \<lparr>IPVersion = 4\<rparr> = ''/calico/ipam/v2/assignment/ipv4/''"
    "defaultPathRoot \<lparr>IPVersion = 6\<rparr> = ''/calico/ipam/v2/assignment/ipv6/''"
    "defaultPathRoot \<lparr>IPVersion = - 1\<rparr> = ''/calico/ipam/v2/assignment/ipv-1/''"
    by (simp_all add: defaultPathRoot_def fmt_d_def uitoa.simps decDigit_def)
  show ?thesis
    using defaultPathRoot_value [of "\<lparr>IPVersion = 0\<rparr>"]
      defaultPathRoot_value [of "\<lparr>IPVersion = 4\<rparr>"] e
    by simp
qed

subsection \<open>The delete path is the path\<close>

text \<open>
  Claim C10. For every key \<open>defaultDeletePath\<close> gives what \<open>defaultPath\<close> gives: the same
  path, and the same error when the CIDR is unset.
\<close>

theorem defaultDeletePath_eq_defaultPath:
  "defaultDeletePath key = defaultPath key"
  by (simp add: defaultDeletePath_def)


section \<open>The serialized block\<close>

lemma marshalAttribute_shape: "isAttribute (marshalAttribute a)"
  by (auto simp: isAttribute_def marshalAttribute_def marshalPtr_def marshalMap_def nullOr_def
      isString_def isStringMap_def list_all_iff split: option.splits)

subsection \<open>Names and shapes of the members\<close>

text \<open>
  Claim C8, as the spec has it: for every block the serialized form has the members
  \<open>cidr\<close>, \<open>hostAffinity\<close>, \<open>strictAffinity\<close>, \<open>allocations\<close>, an array of nullable integers,
  \<open>unallocated\<close>, an array of integers, and \<open>attributes\<close>, an array of records. A slice of
  Go may be nil, and \<open>json.Marshal\<close> writes a nil slice as \<open>null\<close>: the block below has its
  three slices nil, and none of the three members is an array.
\<close>

theorem marshalBlock_nil_counterexample:
  "marshalBlock \<lparr>BlockCIDR = \<lparr>IP = Some [10, 0, 0, 0], Mask = [255, 255, 255, 252]\<rparr>,
       HostAffinity = None, StrictAffinity = False,
       Allocations = None, Unallocated = None, Attributes = None\<rparr>
     = JObject [(''cidr'', JString ''10.0.0.0/30''), (''hostAffinity'', JNull),
                (''strictAffinity'', JBool False), (''allocations'', JNull),
                (''unallocated'', JNull), (''attributes'', JNull)]
   \<and> \<not> arrayOf (nullOr isNumber) JNull \<and> \<not> arrayOf isNumber JNull \<and> \<not> arrayOf isAttribute JNull"
  by (simp add: marshalBlock_def marshalPtr_def marshalSlice_def arrayOf_def string_eval)

text \<open>
  Claim C8, amended. For every block the serialized form is an object of exactly the
  members \<open>cidr\<close>, \<open>hostAffinity\<close>, \<open>strictAffinity\<close>, \<open>allocations\<close>, \<open>unallocated\<close> and
  \<open>attributes\<close>, in this order. \<open>hostAffinity\<close> is null or a string. \<open>allocations\<close> is null
  when the slice is nil and otherwise the array of its entries, each null or an integer;
  \<open>unallocated\<close> is null when the slice is nil and otherwise the array of its integers;
  \<open>attributes\<close> is null when the slice is nil and otherwise the array of its records,
  each an object of exactly the members \<open>handle_id\<close> (null or a string) and \<open>secondary\<close>
  (null or an object of strings).
\<close>

theorem marshalBlock_shape:
  "\<exists>c h a u t.
     marshalBlock b =
       JObject [(''cidr'', c), (''hostAffinity'', h), (''strictAffinity'', JBool (StrictAffinity b)),
                (''allocations'', a), (''unallocated'', u), (''attributes'', t)]
     \<and> h = (case HostAffinity b of None \<Rightarrow> JNull | Some s \<Rightarrow> JString s)
     \<and> a = (case Allocations b of
              None \<Rightarrow> JNull
            | Some vs \<Rightarrow> JArray (map (\<lambda>p. case p of None \<Rightarrow> JNull | Some n \<Rightarrow> JNumber n) vs))
     \<and> u = (case Unallocated b of None \<Rightarrow> JNull | Some vs \<Rightarrow> JArray (map JNumber vs))
     \<and> t = (case Attributes b of
              None \<Rightarrow> JNull
            | Some vs \<Rightarrow>
                JArray (map (\<lambda>r. JObject
                  [(''handle_id'', case AttrPrimary r of None \<Rightarrow> JNull | Some s \<Rightarrow> JString s),
                   (''secondary'', case AttrSecondary r of
                       None \<Rightarrow> JNull
                     | Some kvs \<Rightarrow> JObject (map (\<lambda>(k, v). (k, JString v)) kvs))]) vs))
     \<and> nullOr isString h
     \<and> (if Allocations b = None then a = JNull else arrayOf (nullOr isNumber) a)
     \<and> (if Unallocated b = None then u = JNull else arrayOf isNumber u)
     \<and> (if Attributes b = None then t = JNull else arrayOf isAttribute t)"
proof -
  have m: "marshalAttribute = (\<lambda>r. JObject
                  [(''handle_id'', case AttrPrimary r of None \<Rightarrow> JNull | Some s \<Rightarrow> JString s),
                   (''secondary'', case AttrSecondary r of
                       None \<Rightarrow> JNull
                     | Some kvs \<Rightarrow> JObject (map (\<lambda>(k, v). (k, JString v)) kvs))])"
    by (rule ext) (simp add: marshalAttribute_def marshalPtr_def marshalMap_def)
  have p: "marshalPtr JNumber = (\<lambda>p. case p of None \<Rightarrow> JNull | Some n \<Rightarrow> JNumber n)"
    by (rule ext) (simp add: marshalPtr_def)
  have s: "nullOr isString (marshalPtr JString (HostAffinity b))"
    by (simp add: marshalPtr_def nullOr_def isString_def split: option.splits)
  have a: "Allocations b \<noteq> None \<Longrightarrow> arrayOf (nullOr isNumber) (marshalSlice (marshalPtr JNumber) (Allocations b))"
    by (auto simp: marshalSlice_def marshalPtr_def arrayOf_def nullOr_def isNumber_def list_all_iff
        split: option.splits)
  have u: "Unallocated b \<noteq> None \<Longrightarrow> arrayOf isNumber (marshalSlice JNumber (Unallocated b))"
    by (auto simp: marshalSlice_def arrayOf_def isNumber_def list_all_iff)
  have t: "Attributes b \<noteq> None \<Longrightarrow> arrayOf isAttribute (marshalSlice marshalAttribute (Attributes b))"
    by (auto simp: marshalSlice_def arrayOf_def list_all_iff marshalAttribute_shape)
  have n: "\<And>f. marshalSlice f None = JNull" by (simp add: marshalSlice_def)
  show ?thesis
    unfolding marshalBlock_def
    apply (intro exI conjI)
            apply (rule refl)
           apply (simp add: marshalPtr_def)
          apply (simp add: marshalSlice_def p)
         apply (simp add: marshalSlice_def)
        apply (simp add: marshalSlice_def m)
       apply (rule s)
      apply (cases "Allocations b = None"; simp add: n a)
     apply (cases "Unallocated b = None"; simp add: n u)
    apply (cases "Attributes b = None"; simp add: n t)
    done
qed


section \<open>The partition of the ordinals\<close>

lemma elems_Some [simp]: "elems (Some xs) = xs"
  by (simp add: elems_def)

lemma partitioned_part: "partitioned b = part (elems (Allocations b)) (elems (Unallocated b))"
  by (auto simp: partitioned_def part_def Let_def list_all_iff)

lemma part_sets:
  assumes "part a u"
  shows "{n. 0 \<le> n \<and> n < int (length a) \<and> a ! nat n \<noteq> None} \<inter> set u = {}"
    and "{n. 0 \<le> n \<and> n < int (length a) \<and> a ! nat n \<noteq> None} \<union> set u = {0..<int (length a)}"
proof -
  have 3: "(a ! nat n = None) = (n \<in> set u)" if "0 \<le> n" "n < int (length a)" for n
    using assms that unfolding part_def by (metis int_nat_eq nat_less_iff)
  have 2: "\<And>n. n \<in> set u \<Longrightarrow> 0 \<le> n \<and> n < int (length a)"
    using assms unfolding part_def by blast
  show "{n. 0 \<le> n \<and> n < int (length a) \<and> a ! nat n \<noteq> None} \<inter> set u = {}"
  proof (rule equals0I)
    fix n assume "n \<in> {n. 0 \<le> n \<and> n < int (length a) \<and> a ! nat n \<noteq> None} \<inter> set u"
    then have "0 \<le> n" "n < int (length a)" "a ! nat n \<noteq> None" "n \<in> set u" by simp_all
    then show False using 3 [of n] by simp
  qed
  show "{n. 0 \<le> n \<and> n < int (length a) \<and> a ! nat n \<noteq> None} \<union> set u = {0..<int (length a)}"
  proof (rule set_eqI)
    fix n
    show "(n \<in> {n. 0 \<le> n \<and> n < int (length a) \<and> a ! nat n \<noteq> None} \<union> set u)
            = (n \<in> {0..<int (length a)})"
      using 2 [of n] 3 [of n] by (cases "n \<in> set u") auto
  qed
qed

lemma part_new: "part (replicate n None) (map int [0..<n])"
  by (auto simp: part_def)

lemma foldl_set_length:
  "length (foldl (\<lambda>a n. a[nat n := v]) a ns) = length a"
  by (induction ns arbitrary: a) simp_all

lemma foldl_set_nth:
  "i < length a \<Longrightarrow> \<forall>n \<in> set ns. 0 \<le> n \<Longrightarrow>
   foldl (\<lambda>a n. a[nat n := v]) a ns ! i = (if int i \<in> set ns then v else a ! i)"
proof (induction ns arbitrary: a)
  case Nil
  then show ?case by simp
next
  case (Cons n ns)
  have "foldl (\<lambda>a n. a[nat n := v]) (a[nat n := v]) ns ! i
          = (if int i \<in> set ns then v else a[nat n := v] ! i)"
    using Cons.prems by (intro Cons.IH) simp_all
  moreover have "(int i = n) = (nat n = i)" using Cons.prems(2) by auto
  ultimately show ?case using Cons.prems(1) by (simp add: nth_list_update)
qed

lemma part_allocate:
  assumes "part a u" "set ch \<subseteq> set u"
  shows "part (foldl (\<lambda>a n. a[nat n := Some v]) a ch) (filter (\<lambda>n. n \<notin> set ch) u)"
proof -
  have pos: "\<forall>n \<in> set ch. 0 \<le> n" using assms unfolding part_def by blast
  show ?thesis
    unfolding part_def foldl_set_length
  proof (intro conjI allI impI ballI)
    fix i assume i: "i < length a"
    have "(a ! i = None) = (int i \<in> set u)" using assms(1) i unfolding part_def by blast
    then show "(foldl (\<lambda>a n. a[nat n := Some v]) a ch ! i = None)
                 = (int i \<in> set (filter (\<lambda>n. n \<notin> set ch) u))"
      using assms(2) by (auto simp: foldl_set_nth [OF i pos])
  next
    fix n assume "n \<in> set (filter (\<lambda>n. n \<notin> set ch) u)"
    then have "n \<in> set u" by simp
    then show "0 \<le> n" "n < int (length a)" using assms(1) unfolding part_def by blast+
  qed
qed

lemma part_release:
  assumes "part a u" "0 \<le> n" "n < int (length a)"
  shows "part (a[nat n := None]) (u @ [n])"
  unfolding part_def length_list_update
proof (intro conjI allI impI ballI)
  fix i assume i: "i < length a"
  have "(a ! i = None) = (int i \<in> set u)" using assms(1) i unfolding part_def by blast
  moreover have "(int i = n) = (nat n = i)" using assms(2) by auto
  ultimately show "(a[nat n := None] ! i = None) = (int i \<in> set (u @ [n]))"
    using i by (auto simp: nth_list_update)
next
  fix m assume "m \<in> set (u @ [n])"
  then have "m \<in> set u \<or> m = n" by auto
  then show "0 \<le> m" "m < int (length a)" using assms unfolding part_def by blast+
qed

lemma part_renumber: "part a u \<Longrightarrow> part (map (map_option f) a) u"
  by (simp add: part_def)

text \<open>Every operation keeps the invariant.\<close>

lemma partitioned_newBlock: "partitioned (newBlock c host strict)"
  by (simp add: partitioned_part newBlock_def part_new)

lemma partitioned_Allocate:
  assumes "partitioned b" "Allocate b count handleID secondaryAttrs hostID = Inr (b', ordinals)"
  shows "partitioned b'"
proof -
  let ?a = "elems (Allocations b)" and ?u = "elems (Unallocated b)"
  let ?chosen = "take (nat count) (remdups ?u)"
  obtain attrs' idx where b':
    "b' = b\<lparr>Allocations := Some (foldl (\<lambda>a n. a[nat n := Some (int idx)]) ?a ?chosen),
            Unallocated := Some (filter (\<lambda>n. n \<notin> set ?chosen) ?u),
            Attributes := Some attrs'\<rparr>"
    using assms(2) by (auto simp: Allocate_def Let_def split: if_splits option.splits)
  have sub: "set ?chosen \<subseteq> set ?u"
    using set_take_subset [of "nat count" "remdups ?u"] by simp
  show ?thesis
    using part_allocate [OF assms(1) [unfolded partitioned_part] sub]
    by (simp add: partitioned_part b')
qed

lemma partitioned_releaseOne:
  assumes "partitioned (fst st)"
  shows "partitioned (fst (releaseOne st n))"
proof (cases "0 \<le> n \<and> n < int (length (elems (Allocations (fst st))))
    \<and> elems (Allocations (fst st)) ! nat n \<noteq> None")
  case True
  then have "fst (releaseOne st n) =
      (fst st)\<lparr>Allocations := Some ((elems (Allocations (fst st)))[nat n := None]),
               Unallocated := Some (elems (Unallocated (fst st)) @ [n])\<rparr>"
    by (simp add: releaseOne_def Let_def)
  then show ?thesis
    using part_release [OF assms [unfolded partitioned_part], of n] True
    by (simp add: partitioned_part)
next
  case False
  then have "fst (releaseOne st n) = fst st" by (auto simp: releaseOne_def Let_def)
  then show ?thesis using assms by simp
qed

lemma partitioned_foldl_releaseOne:
  "partitioned (fst st) \<Longrightarrow> partitioned (fst (foldl releaseOne st ordinals))"
  by (induction ordinals arbitrary: st) (simp_all add: partitioned_releaseOne)

lemma partitioned_Release: "partitioned b \<Longrightarrow> partitioned (fst (Release b ordinals))"
  unfolding Release_def by (rule partitioned_foldl_releaseOne) simp

lemma partitioned_ReleaseByHandle: "partitioned b \<Longrightarrow> partitioned (ReleaseByHandle b handleID)"
  unfolding ReleaseByHandle_def by (rule partitioned_Release)

lemma partitioned_Compact: "partitioned b \<Longrightarrow> partitioned (Compact b)"
  by (simp add: partitioned_part Compact_def Let_def part_renumber)

lemma reachable_partitioned: "reachable b \<Longrightarrow> partitioned b"
  by (induction rule: reachable.induct)
    (auto intro: partitioned_newBlock partitioned_Allocate partitioned_Release
      partitioned_ReleaseByHandle partitioned_Compact)

text \<open>The example of the specification: the ledger of 10.0.0.0/30 and an allocation of two.\<close>

lemma blockSize_30: "blockSize \<lparr>IP = Some [10, 0, 0, 0], Mask = [255, 255, 255, 252]\<rparr> = 4"
  by (simp add: blockSize_def onesOfByte_def)

lemma newBlock_30:
  "newBlock \<lparr>IP = Some [10, 0, 0, 0], Mask = [255, 255, 255, 252]\<rparr> None False =
     \<lparr>BlockCIDR = \<lparr>IP = Some [10, 0, 0, 0], Mask = [255, 255, 255, 252]\<rparr>,
      HostAffinity = None, StrictAffinity = False,
      Allocations = Some [None, None, None, None], Unallocated = Some [0, 1, 2, 3],
      Attributes = Some []\<rparr>"
  by (simp add: newBlock_def blockSize_30 replicate_numeral_unfold upt_rec)

lemma Allocate_30:
  "Allocate \<lparr>BlockCIDR = \<lparr>IP = Some [10, 0, 0, 0], Mask = [255, 255, 255, 252]\<rparr>,
      HostAffinity = None, StrictAffinity = False,
      Allocations = Some [None, None, None, None], Unallocated = Some [0, 1, 2, 3],
      Attributes = Some []\<rparr> 2 (Some ''h1'') (Some []) ''node1'' =
   Inr (\<lparr>BlockCIDR = \<lparr>IP = Some [10, 0, 0, 0], Mask = [255, 255, 255, 252]\<rparr>,
      HostAffinity = None, StrictAffinity = False,
      Allocations = Some [Some 0, Some 0, None, None], Unallocated = Some [2, 3],
      Attributes = Some [\<lparr>AttrPrimary = Some ''h1'', AttrSecondary = Some []\<rparr>]\<rparr>, [0, 1])"
  by (simp add: Allocate_def)

subsection \<open>The invariant of the ledger\<close>

text \<open>
  Claim C9. For every block that creation, allocation, release and compaction lead to,
  the ordinals that have an entry in \<open>Allocations\<close> and the ordinals in \<open>Unallocated\<close>
  partition the range from 0 to the length of \<open>Allocations\<close>: no ordinal is in both and
  none in neither. A created block has the invariant and every operation keeps it.
\<close>

theorem ledger_partition:
  "(reachable b \<longrightarrow>
      partitioned b
      \<and> {n. 0 \<le> n \<and> n < int (length (elems (Allocations b))) \<and> elems (Allocations b) ! nat n \<noteq> None}
          \<inter> set (elems (Unallocated b)) = {}
      \<and> {n. 0 \<le> n \<and> n < int (length (elems (Allocations b))) \<and> elems (Allocations b) ! nat n \<noteq> None}
          \<union> set (elems (Unallocated b)) = {0..<int (length (elems (Allocations b)))})
   \<and> partitioned (newBlock c host strict)
   \<and> (partitioned b \<longrightarrow>
        (\<forall>b' ordinals. Allocate b count handleID secondaryAttrs hostID = Inr (b', ordinals)
            \<longrightarrow> partitioned b')
        \<and> partitioned (fst (Release b released))
        \<and> partitioned (ReleaseByHandle b handle)
        \<and> partitioned (Compact b))"
proof (intro conjI impI allI)
  assume r: "reachable b"
  then show p: "partitioned b" by (rule reachable_partitioned)
  show "{n. 0 \<le> n \<and> n < int (length (elems (Allocations b))) \<and> elems (Allocations b) ! nat n \<noteq> None}
          \<inter> set (elems (Unallocated b)) = {}"
    by (rule part_sets(1) [OF p [unfolded partitioned_part]])
  show "{n. 0 \<le> n \<and> n < int (length (elems (Allocations b))) \<and> elems (Allocations b) ! nat n \<noteq> None}
          \<union> set (elems (Unallocated b)) = {0..<int (length (elems (Allocations b)))}"
    by (rule part_sets(2) [OF p [unfolded partitioned_part]])
next
  show "partitioned (newBlock c host strict)" by (rule partitioned_newBlock)
next
  fix b' ordinals
  assume "partitioned b" "Allocate b count handleID secondaryAttrs hostID = Inr (b', ordinals)"
  then show "partitioned b'" by (rule partitioned_Allocate)
next
  assume "partitioned b"
  then show "partitioned (fst (Release b released))" by (rule partitioned_Release)
next
  assume "partitioned b"
  then show "partitioned (ReleaseByHandle b handle)" by (rule partitioned_ReleaseByHandle)
next
  assume "partitioned b"
  then show "partitioned (Compact b)" by (rule partitioned_Compact)
qed

theorem ledger_partition_witness:
  "Allocate (newBlock \<lparr>IP = Some [10, 0, 0, 0], Mask = [255, 255, 255, 252]\<rparr> None False)
      2 (Some ''h1'') (Some []) ''node1'' =
     Inr (\<lparr>BlockCIDR = \<lparr>IP = Some [10, 0, 0, 0], Mask = [255, 255, 255, 252]\<rparr>,
        HostAffinity = None, StrictAffinity = False,
        Allocations = Some [Some 0, Some 0, None, None], Unallocated = Some [2, 3],
        Attributes = Some [\<lparr>AttrPrimary = Some ''h1'', AttrSecondary = Some []\<rparr>]\<rparr>, [0, 1])
   \<and> reachable \<lparr>BlockCIDR = \<lparr>IP = Some [10, 0, 0, 0], Mask = [255, 255, 255, 252]\<rparr>,
        HostAffinity = None, StrictAffinity = False,
        Allocations = Some [Some 0, Some 0, None, None], Unallocated = Some [2, 3],
        Attributes = Some [\<lparr>AttrPrimary = Some ''h1'', AttrSecondary = Some []\<rparr>]\<rparr>
   \<and> partitioned \<lparr>BlockCIDR = \<lparr>IP = Some [10, 0, 0, 0], Mask = [255, 255, 255, 252]\<rparr>,
        HostAffinity = None, StrictAffinity = False,
        Allocations = Some [Some 0, Some 0, None, None], Unallocated = Some [2, 3],
        Attributes = Some [\<lparr>AttrPrimary = Some ''h1'', AttrSecondary = Some []\<rparr>]\<rparr>
   \<and> {n. 0 \<le> n \<and> n < 4 \<and> [Some (0 :: int), Some 0, None, None] ! nat n \<noteq> None} \<inter> {2, 3} = {}
   \<and> {n. 0 \<le> n \<and> n < 4 \<and> [Some (0 :: int), Some 0, None, None] ! nat n \<noteq> None} \<union> {2, 3} = {0..<4}"
proof -
  let ?c = "\<lparr>IP = Some [10 :: byte, 0, 0, 0], Mask = [255 :: byte, 255, 255, 252]\<rparr>"
  let ?b1 = "\<lparr>BlockCIDR = ?c, HostAffinity = None, StrictAffinity = False,
        Allocations = Some [Some 0, Some 0, None, None], Unallocated = Some [2, 3],
        Attributes = Some [\<lparr>AttrPrimary = Some ''h1'', AttrSecondary = Some []\<rparr>]\<rparr>"
  have a: "Allocate (newBlock ?c None False) 2 (Some ''h1'') (Some []) ''node1'' = Inr (?b1, [0, 1])"
    by (simp add: newBlock_30 Allocate_30)
  have r: "reachable ?b1"
    by (rule reachable.allocated [OF reachable.created a])
  from ledger_partition [where b = ?b1 and c = ?c and host = None and strict = False and count = 2
      and handleID = "Some ''h1''" and secondaryAttrs = "Some []" and hostID = "''node1''"
      and released = "[]" and handle = "''h1''"] r
  have "partitioned ?b1
      \<and> {n. 0 \<le> n \<and> n < int (length (elems (Allocations ?b1))) \<and> elems (Allocations ?b1) ! nat n \<noteq> None}
          \<inter> set (elems (Unallocated ?b1)) = {}
      \<and> {n. 0 \<le> n \<and> n < int (length (elems (Allocations ?b1))) \<and> elems (Allocations ?b1) ! nat n \<noteq> None}
          \<union> set (elems (Unallocated ?b1)) = {0..<int (length (elems (Allocations ?b1)))}"
    by blast
  then show ?thesis using a r by simp
qed


end
